theory Spec2Isabelle
  imports Complex_Main
begin

section \<open>Values, exceptions and records of the storage layer\<close>

text \<open>
  The program is dynamically typed: a field of a \<open>User\<close>, a column of a row and an
  argument of a query hold any Python value. The values that reach this code are the ones
  SQLite hands out and takes (\<open>None\<close>, \<open>int\<close>, \<open>float\<close>, \<open>str\<close>, \<open>bytes\<close>).
  A finite float is represented by the real number it denotes; the two infinities and NaN
  are values of their own. A \<open>str\<close> is a list of code points below 256.
\<close>

datatype pyval =
    PNone
  | PInt int
  | PFloat real
  | PInf
  | PNegInf
  | PNaN
  | PStr string
  | PBytes string

text \<open>
  The exceptions this code can raise or let through: \<open>ValueError\<close> (the setters'
  own \<open>raise\<close> and \<open>ipaddress.ip_address\<close>), \<open>TypeError\<close> (\<open>re.match\<close> on a
  value that is not a \<open>str\<close>, \<open><\<close> between a number and a non-number), \<open>KeyError\<close>
  (a missing key of a record) and \<open>sqlite3.Error\<close>.
\<close>

datatype exn = ValueError | TypeError | KeyError | SqliteError

text \<open>
  A record of the repository: column names with their values, in column order.
  \<open>record[k]\<close> on a key that is not there raises: \<open>KeyError\<close> from a \<open>dict\<close>,
  \<open>IndexError\<close> from a \<open>sqlite3.Row\<close>; \<open>KeyError\<close> stands for both.
\<close>

type_synonym row = "(string \<times> pyval) list"

definition getitem :: "row \<Rightarrow> string \<Rightarrow> exn + pyval" where
  "getitem record k = (case map_of record k of None \<Rightarrow> Inl KeyError | Some v \<Rightarrow> Inr v)"

section \<open>The regular expression of the email setter\<close>

text \<open>
  \<open>re.match(r'^[\w\.-]+@[\w\.-]+\.\w+$', value)\<close> uses four constructs: the anchors
  \<open>^\<close> and \<open>$\<close>, a literal character, and a character set under \<open>+\<close>.
  \<open>re_match_at\<close> is the backtracking matcher for a sequence of such items, started by
  \<open>re.match\<close> at position 0. Without \<open>re.MULTILINE\<close>, \<open>^\<close> holds at position 0
  only, and \<open>$\<close> holds at the end of the string and also just before a newline that
  ends the string.
\<close>

datatype re_item = Bol | Eol | Chr char | PlusSet "char \<Rightarrow> bool"

fun re_match_at :: "re_item list \<Rightarrow> nat \<Rightarrow> string \<Rightarrow> bool" where
  "re_match_at [] pos s = True"
| "re_match_at (Bol # r) pos s = (pos = 0 \<and> re_match_at r pos s)"
| "re_match_at (Eol # r) pos s = ((s = [] \<or> s = [CHR 0x0A]) \<and> re_match_at r pos s)"
| "re_match_at (Chr c # r) pos s =
     (case s of [] \<Rightarrow> False | x # xs \<Rightarrow> x = c \<and> re_match_at r (Suc pos) xs)"
| "re_match_at (PlusSet P # r) pos s =
     (case s of [] \<Rightarrow> False
      | x # xs \<Rightarrow> P x \<and> (re_match_at (PlusSet P # r) (Suc pos) xs \<or> re_match_at r (Suc pos) xs))"

definition re_match :: "re_item list \<Rightarrow> string \<Rightarrow> bool" where
  "re_match pattern s = re_match_at pattern 0 s"

text \<open>
  \<open>\w\<close> on a \<open>str\<close> pattern is Unicode-aware: the ASCII letters and digits, the
  underscore, and the alphanumeric code points above 127 (here those below 256).
\<close>

definition word_char :: "char \<Rightarrow> bool" where
  "word_char c =
     (let n = (of_char c :: nat) in
        (48 \<le> n \<and> n \<le> 57) \<or> (65 \<le> n \<and> n \<le> 90) \<or> n = 95 \<or> (97 \<le> n \<and> n \<le> 122)
        \<or> n = 170 \<or> n = 178 \<or> n = 179 \<or> n = 181 \<or> n = 185 \<or> n = 186
        \<or> n = 188 \<or> n = 189 \<or> n = 190
        \<or> (192 \<le> n \<and> n \<le> 214) \<or> (216 \<le> n \<and> n \<le> 246) \<or> (248 \<le> n \<and> n \<le> 255))"

text \<open>The set \<open>[\w\.-]\<close>.\<close>

definition word_dot_dash :: "char \<Rightarrow> bool" where
  "word_dot_dash c = (word_char c \<or> c = CHR ''.'' \<or> c = CHR ''-'')"

definition email_pattern :: "re_item list" where
  "email_pattern =
     [Bol, PlusSet word_dot_dash, Chr (CHR ''@''), PlusSet word_dot_dash, Chr (CHR ''.''),
      PlusSet word_char, Eol]"

text \<open>
  What the pattern describes, written out: a non-empty local part of \<open>[\w.-]\<close>, an
  \<open>@\<close>, a non-empty domain of \<open>[\w.-]\<close>, a dot and a non-empty suffix of \<open>\w\<close>;
  and, since \<open>$\<close> is Python's, the same followed by one final newline.
\<close>

definition email_shape :: "string \<Rightarrow> bool" where
  "email_shape s =
     (\<exists>l d t. s = l @ CHR ''@'' # d @ CHR ''.'' # t
        \<and> l \<noteq> [] \<and> list_all word_dot_dash l
        \<and> d \<noteq> [] \<and> list_all word_dot_dash d
        \<and> t \<noteq> [] \<and> list_all word_char t)"

definition email_syntax :: "string \<Rightarrow> bool" where
  "email_syntax s = (email_shape s \<or> (\<exists>s'. s = s' @ [CHR 0x0A] \<and> email_shape s'))"

section \<open>Entity and User\<close>

text \<open>
  \<open>ipaddress.ip_address\<close> belongs to the Python library, and what it accepts differs
  between Python versions. It is a parameter \<open>ip_address\<close> of the model: \<open>True\<close> when
  the call returns an address, \<open>False\<close> when it raises \<open>ValueError\<close>.
\<close>

type_synonym ip_parser = "pyval \<Rightarrow> bool"

record entity =
  entity_uuid :: pyval

record user = entity +
  user_name :: pyval
  email :: pyval
  last_login_ip :: pyval
  user_type :: pyval

text \<open>
  A property setter runs on the object and either stores the value or raises; the result
  is the exception, if any, and the object afterwards.
\<close>

definition entity_uuid_setter :: "pyval \<Rightarrow> 'a entity_scheme \<Rightarrow> exn option \<times> 'a entity_scheme" where
  "entity_uuid_setter v self = (None, self\<lparr>entity_uuid := v\<rparr>)"

definition user_name_setter :: "pyval \<Rightarrow> user \<Rightarrow> exn option \<times> user" where
  "user_name_setter v self = (None, self\<lparr>user_name := v\<rparr>)"

definition email_setter :: "pyval \<Rightarrow> user \<Rightarrow> exn option \<times> user" where
  "email_setter v self =
     (case v of
        PStr s \<Rightarrow>
          if \<not> re_match email_pattern s then (Some ValueError, self)
          else (None, self\<lparr>email := v\<rparr>)
      | _ \<Rightarrow> (Some TypeError, self))"

definition last_login_ip_setter :: "ip_parser \<Rightarrow> pyval \<Rightarrow> user \<Rightarrow> exn option \<times> user" where
  "last_login_ip_setter ip_address v self =
     (if \<not> ip_address v then (Some ValueError, self)
      else (None, self\<lparr>last_login_ip := v\<rparr>))"

text \<open>
  \<open>value < n\<close> and \<open>value > n\<close> against an \<open>int\<close> literal: exact on numbers, false on
  NaN, \<open>TypeError\<close> on anything else.
\<close>

fun py_lt_int :: "pyval \<Rightarrow> int \<Rightarrow> exn + bool" where
  "py_lt_int (PInt i) n = Inr (i < n)"
| "py_lt_int (PFloat x) n = Inr (x < of_int n)"
| "py_lt_int PInf n = Inr False"
| "py_lt_int PNegInf n = Inr True"
| "py_lt_int PNaN n = Inr False"
| "py_lt_int _ n = Inl TypeError"

fun py_gt_int :: "pyval \<Rightarrow> int \<Rightarrow> exn + bool" where
  "py_gt_int (PInt i) n = Inr (i > n)"
| "py_gt_int (PFloat x) n = Inr (x > of_int n)"
| "py_gt_int PInf n = Inr True"
| "py_gt_int PNegInf n = Inr False"
| "py_gt_int PNaN n = Inr False"
| "py_gt_int _ n = Inl TypeError"

definition user_type_setter :: "pyval \<Rightarrow> user \<Rightarrow> exn option \<times> user" where
  "user_type_setter v self =
     (case py_lt_int v 1 of
        Inl e \<Rightarrow> (Some e, self)
      | Inr True \<Rightarrow> (Some ValueError, self)
      | Inr False \<Rightarrow>
          (case py_gt_int v 3 of
             Inl e \<Rightarrow> (Some e, self)
           | Inr True \<Rightarrow> (Some ValueError, self)
           | Inr False \<Rightarrow> (None, self\<lparr>user_type := v\<rparr>)))"

text \<open>
  \<open>User.__init__\<close>: the base class stores the UUID, then the four assignments go
  through the setters, in this order. An exception leaves no object behind. Before its
  first assignment an attribute does not exist; \<open>PNone\<close> stands for it in the object
  under construction.
\<close>

definition Entity_init :: "pyval \<Rightarrow> entity" where
  "Entity_init entity_uuid' = \<lparr>entity_uuid = entity_uuid'\<rparr>"

definition User_init ::
  "ip_parser \<Rightarrow> pyval \<Rightarrow> pyval \<Rightarrow> pyval \<Rightarrow> pyval \<Rightarrow> pyval \<Rightarrow> exn + user" where
  "User_init ip_address user_uuid user_name' email' last_login_ip' user_type' =
     (let self0 = entity.extend (Entity_init user_uuid)
                    (user.fields PNone PNone PNone PNone) in
      case user_name_setter user_name' self0 of (Some e, _) \<Rightarrow> Inl e | (None, self1) \<Rightarrow>
      (case email_setter email' self1 of (Some e, _) \<Rightarrow> Inl e | (None, self2) \<Rightarrow>
      (case last_login_ip_setter ip_address last_login_ip' self2 of (Some e, _) \<Rightarrow> Inl e | (None, self3) \<Rightarrow>
      (case user_type_setter user_type' self3 of (Some e, _) \<Rightarrow> Inl e | (None, self4) \<Rightarrow>
      Inr self4))))"

section \<open>RepoMapper and UserRepoMapper\<close>

text \<open>
  The abstract class \<open>RepoMapper\<close> is the pair of its two methods. An entity is any
  extension of the record \<open>entity\<close>, as a subclass of \<open>Entity\<close> is.
\<close>

record 'a RepoMapper =
  map_from_repo :: "row \<Rightarrow> exn + 'a entity_scheme"
  map_to_repo :: "'a entity_scheme \<Rightarrow> row"

text \<open>
  \<open>record['uuid']\<close> and the four other lookups are evaluated first, left to right,
  then the constructor runs.
\<close>

definition UserRepoMapper_map_from_repo :: "ip_parser \<Rightarrow> row \<Rightarrow> exn + user" where
  "UserRepoMapper_map_from_repo ip_address record =
     (case getitem record ''uuid'' of Inl e \<Rightarrow> Inl e | Inr a \<Rightarrow>
     (case getitem record ''user_name'' of Inl e \<Rightarrow> Inl e | Inr b \<Rightarrow>
     (case getitem record ''email'' of Inl e \<Rightarrow> Inl e | Inr c \<Rightarrow>
     (case getitem record ''last_login_ip'' of Inl e \<Rightarrow> Inl e | Inr d \<Rightarrow>
     (case getitem record ''user_type'' of Inl e \<Rightarrow> Inl e | Inr t \<Rightarrow>
      User_init ip_address a b c d t)))))"

definition UserRepoMapper_map_to_repo :: "user \<Rightarrow> row" where
  "UserRepoMapper_map_to_repo entity =
     [(''uuid'', entity_uuid entity),
      (''user_name'', user_name entity),
      (''email'', email entity),
      (''last_login_ip'', last_login_ip entity),
      (''user_type'', user_type entity)]"

definition UserRepoMapper :: "ip_parser \<Rightarrow> unit user_ext RepoMapper" where
  "UserRepoMapper ip_address =
     \<lparr>map_from_repo = UserRepoMapper_map_from_repo ip_address,
      map_to_repo = UserRepoMapper_map_to_repo\<rparr>"

section \<open>The database connection\<close>

text \<open>
  A query is an f-string: literal text with values put in between. The text that
  reaches SQLite is the concatenation of the pieces, each value formatted by Python.
\<close>

datatype frag = Lit string | Val pyval

type_synonym query = "frag list"

text \<open>
  \<open>render\<close> is that text, where the formatting of the values is known: a \<open>str\<close> as
  it is, an \<open>int\<close> in decimal, \<open>None\<close>, the infinities and NaN by their names. How
  Python prints a finite float is not modelled.
\<close>

function str_nat :: "nat \<Rightarrow> string" where
  "str_nat n = (if n < 10 then [char_of (48 + n)] else str_nat (n div 10) @ [char_of (48 + n mod 10)])"
  by pat_completeness auto
termination
  by (relation "measure id") auto

definition str_int :: "int \<Rightarrow> string" where
  "str_int i = (if i < 0 then CHR ''-'' # str_nat (nat (- i)) else str_nat (nat i))"

definition format_value :: "pyval \<Rightarrow> string option" where
  "format_value v =
     (case v of
        PStr s \<Rightarrow> Some s
      | PInt i \<Rightarrow> Some (str_int i)
      | PNone \<Rightarrow> Some ''None''
      | PInf \<Rightarrow> Some ''inf''
      | PNegInf \<Rightarrow> Some ''-inf''
      | PNaN \<Rightarrow> Some ''nan''
      | _ \<Rightarrow> None)"

definition render :: "query \<Rightarrow> string option" where
  "render q =
     map_option concat
       (those (map (\<lambda>piece. case piece of Lit s \<Rightarrow> Some s | Val v \<Rightarrow> format_value v) q))"

text \<open>
  \<open>sqlite3\<close> is the library behind \<open>create_connection\<close>. What it does with a
  statement is a parameter of the model: \<open>connect\<close> tells whether opening
  \<open>demo.db\<close> raises, \<open>execute\<close> gives, for a statement, its parameters and the content
  the connection sees, either the exception raised or the content afterwards and the
  rows of the result, in scan order.
\<close>

record 'db sqlite3 =
  connect :: "'db \<Rightarrow> exn option"
  execute :: "query \<Rightarrow> pyval list \<Rightarrow> 'db \<Rightarrow> exn + 'db \<times> row list"

text \<open>
  The calls made on connections and cursors are recorded in the order they happen.
  \<open>database\<close> is the committed content of \<open>demo.db\<close>; a connection works on its own
  view of it, which \<open>commit\<close> writes back and \<open>close\<close> drops.
\<close>

datatype event = Connect | Execute query "pyval list" | Fetchone | Fetchall | Commit | Close

record 'db world =
  database :: 'db
  calls :: "event list"

type_synonym ('a, 'db) io = "'db world \<Rightarrow> (exn + 'a) \<times> 'db world"

definition return_io :: "'a \<Rightarrow> ('a, 'db) io" where
  "return_io x w = (Inr x, w)"

definition lift_io :: "exn + 'a \<Rightarrow> ('a, 'db) io" where
  "lift_io r w = (r, w)"

definition bind_io :: "('a, 'db) io \<Rightarrow> ('a \<Rightarrow> ('b, 'db) io) \<Rightarrow> ('b, 'db) io" where
  "bind_io m f w = (case m w of (Inl e, w') \<Rightarrow> (Inl e, w') | (Inr x, w') \<Rightarrow> f x w')"

definition record_call :: "event \<Rightarrow> 'db world \<Rightarrow> 'db world" where
  "record_call ev w = w\<lparr>calls := calls w @ [ev]\<rparr>"

definition create_connection :: "'db sqlite3 \<Rightarrow> ('db, 'db) io" where
  "create_connection sqlite w =
     (case connect sqlite (database w) of
        Some e \<Rightarrow> (Inl e, record_call Connect w)
      | None \<Rightarrow> (Inr (database w), record_call Connect w))"

definition cursor_execute ::
  "'db sqlite3 \<Rightarrow> query \<Rightarrow> pyval list \<Rightarrow> 'db \<Rightarrow> ('db \<times> row list, 'db) io" where
  "cursor_execute sqlite q params conn w =
     (execute sqlite q params conn, record_call (Execute q params) w)"

definition fetchall :: "row list \<Rightarrow> (row list, 'db) io" where
  "fetchall rows w = (Inr rows, record_call Fetchall w)"

definition fetchone :: "row list \<Rightarrow> (row option, 'db) io" where
  "fetchone rows w =
     (Inr (case rows of [] \<Rightarrow> None | r # _ \<Rightarrow> Some r), record_call Fetchone w)"

definition commit :: "'db \<Rightarrow> (unit, 'db) io" where
  "commit conn w = (Inr (), record_call Commit (w\<lparr>database := conn\<rparr>))"

definition close :: "(unit, 'db) io" where
  "close w = (Inr (), record_call Close w)"

section \<open>Repository\<close>

record 'a Repository =
  table_name :: string
  repo_mapper :: "'a RepoMapper"

text \<open>\<open>sep.join(items)\<close> on strings.\<close>

fun join :: "string \<Rightarrow> string list \<Rightarrow> string" where
  "join sep [] = []"
| "join sep [x] = x"
| "join sep (x # y # ys) = x @ sep @ join sep (y # ys)"

text \<open>
  The list comprehension \<open>[self.repo_mapper.map_from_repo(row) for row in fetched_data]\<close>:
  the rows are mapped in order, and the first exception ends it.
\<close>

fun map_rows :: "(row \<Rightarrow> exn + 'e) \<Rightarrow> row list \<Rightarrow> exn + 'e list" where
  "map_rows f [] = Inr []"
| "map_rows f (r # rs) =
     (case f r of
        Inl e \<Rightarrow> Inl e
      | Inr x \<Rightarrow> (case map_rows f rs of Inl e \<Rightarrow> Inl e | Inr xs \<Rightarrow> Inr (x # xs)))"

definition fetch_all_query :: "string \<Rightarrow> bool \<Rightarrow> query" where
  "fetch_all_query tn include_deleted =
     (if include_deleted then [Lit ''SELECT * FROM '', Val (PStr tn)]
      else [Lit ''SELECT * FROM '', Val (PStr tn), Lit '' WHERE deleted = 0''])"

definition fetch_all ::
  "'db sqlite3 \<Rightarrow> 'a Repository \<Rightarrow> bool \<Rightarrow> ('a entity_scheme list, 'db) io" where
  "fetch_all sqlite self include_deleted =
     bind_io (create_connection sqlite) (\<lambda>conn.
     bind_io (cursor_execute sqlite (fetch_all_query (table_name self) include_deleted) [] conn)
       (\<lambda>(conn, result).
     bind_io (fetchall result) (\<lambda>fetched_data.
     bind_io close (\<lambda>_.
     lift_io (map_rows (map_from_repo (repo_mapper self)) fetched_data)))))"

definition fetch_one_by_uuid_query :: "string \<Rightarrow> pyval \<Rightarrow> query" where
  "fetch_one_by_uuid_query tn entity_uuid' =
     [Lit ''SELECT * FROM '', Val (PStr tn), Lit ('' WHERE uuid = '' @ [CHR 0x27]),
      Val entity_uuid', Lit [CHR 0x27]]"

text \<open>
  \<open>not fetched_one_record\<close> holds for \<open>None\<close> and for a record without columns
  (an empty \<open>dict\<close>, a \<open>sqlite3.Row\<close> of length 0).
\<close>

definition fetch_one_by_uuid ::
  "'db sqlite3 \<Rightarrow> 'a Repository \<Rightarrow> pyval \<Rightarrow> ('a entity_scheme option, 'db) io" where
  "fetch_one_by_uuid sqlite self entity_uuid' =
     bind_io (create_connection sqlite) (\<lambda>conn.
     bind_io (cursor_execute sqlite (fetch_one_by_uuid_query (table_name self) entity_uuid') [] conn)
       (\<lambda>(conn, result).
     bind_io (fetchone result) (\<lambda>fetched_one_record.
     bind_io close (\<lambda>_.
     (case fetched_one_record of
        None \<Rightarrow> return_io None
      | Some record \<Rightarrow>
          if record = [] then return_io None
          else lift_io (map_sum id Some (map_from_repo (repo_mapper self) record)))))))"

text \<open>
  A \<open>dict\<close> has each key once, so \<open>tuple(entity_data[k] for k in keys)\<close> is the list of
  the values in key order.
\<close>

definition add_one_query :: "string \<Rightarrow> row \<Rightarrow> query" where
  "add_one_query tn entity_data =
     (let keys = map fst entity_data;
          columns = join '', '' keys;
          placeholders = join '', '' (map (\<lambda>c. [c]) (replicate (length entity_data) (CHR ''?'')))
      in [Lit ''INSERT INTO '', Val (PStr tn), Lit '' ('', Val (PStr columns),
          Lit '') VALUES ('', Val (PStr placeholders), Lit '')''])"

definition add_one ::
  "'db sqlite3 \<Rightarrow> 'a Repository \<Rightarrow> 'a entity_scheme \<Rightarrow> ('a entity_scheme option, 'db) io" where
  "add_one sqlite self entity =
     (let entity_data = map_to_repo (repo_mapper self) entity in
      bind_io (create_connection sqlite) (\<lambda>conn.
      bind_io (cursor_execute sqlite (add_one_query (table_name self) entity_data)
                 (map snd entity_data) conn) (\<lambda>(conn, _).
      bind_io (commit conn) (\<lambda>_.
      bind_io close (\<lambda>_.
      fetch_one_by_uuid sqlite self (entity_uuid entity))))))"

definition soft_delete_query :: "string \<Rightarrow> pyval \<Rightarrow> query" where
  "soft_delete_query tn entity_uuid' =
     [Lit ''UPDATE '', Val (PStr tn), Lit ('' SET deleted = 1 WHERE uuid = '' @ [CHR 0x27]),
      Val entity_uuid', Lit [CHR 0x27]]"

text \<open>
  \<open>if restored_entity_for_soft_delete:\<close> tests an \<open>Optional[Entity]\<close>; an entity
  defines neither \<open>__bool__\<close> nor \<open>__len__\<close>, so only \<open>None\<close> is false.
\<close>

definition soft_delete_one_by_uuid ::
  "'db sqlite3 \<Rightarrow> 'a Repository \<Rightarrow> pyval \<Rightarrow> ('a entity_scheme option, 'db) io" where
  "soft_delete_one_by_uuid sqlite self entity_uuid' =
     bind_io (fetch_one_by_uuid sqlite self entity_uuid') (\<lambda>restored_entity_for_soft_delete.
     (case restored_entity_for_soft_delete of
        None \<Rightarrow> return_io restored_entity_for_soft_delete
      | Some _ \<Rightarrow>
          bind_io (create_connection sqlite) (\<lambda>conn.
          bind_io (cursor_execute sqlite (soft_delete_query (table_name self) entity_uuid') [] conn)
            (\<lambda>(conn, _).
          bind_io (commit conn) (\<lambda>_.
          bind_io close (\<lambda>_.
          return_io restored_entity_for_soft_delete))))))"

definition delete_query :: "string \<Rightarrow> pyval \<Rightarrow> query" where
  "delete_query tn entity_uuid' =
     [Lit ''DELETE FROM '', Val (PStr tn), Lit ('' Where uuid = '' @ [CHR 0x27]),
      Val entity_uuid', Lit [CHR 0x27]]"

definition delete_one_by_uuid ::
  "'db sqlite3 \<Rightarrow> 'a Repository \<Rightarrow> pyval \<Rightarrow> ('a entity_scheme option, 'db) io" where
  "delete_one_by_uuid sqlite self entity_uuid' =
     bind_io (fetch_one_by_uuid sqlite self entity_uuid') (\<lambda>restored_entity_for_delete.
     (case restored_entity_for_delete of
        None \<Rightarrow> return_io restored_entity_for_delete
      | Some _ \<Rightarrow>
          bind_io (create_connection sqlite) (\<lambda>conn.
          bind_io (cursor_execute sqlite (delete_query (table_name self) entity_uuid') [] conn)
            (\<lambda>(conn, _).
          bind_io (commit conn) (\<lambda>_.
          bind_io close (\<lambda>_.
          return_io restored_entity_for_delete))))))"

text \<open>
  \<open>keys = [k for k in entity_data.keys() if k != 'uuid']\<close>; the \<open>SET\<close> clause and the
  parameters are built from these keys only.
\<close>

definition update_keys :: "row \<Rightarrow> string list" where
  "update_keys entity_data = filter (\<lambda>k. k \<noteq> ''uuid'') (map fst entity_data)"

definition update_set_values :: "row \<Rightarrow> string" where
  "update_set_values entity_data = join '', '' (map (\<lambda>key. key @ '' = ?'') (update_keys entity_data))"

definition update_params :: "row \<Rightarrow> pyval list" where
  "update_params entity_data = map snd (filter (\<lambda>(k, v). k \<noteq> ''uuid'') entity_data)"

definition update_one_query :: "string \<Rightarrow> row \<Rightarrow> pyval \<Rightarrow> query" where
  "update_one_query tn entity_data entity_uuid' =
     [Lit ''UPDATE '', Val (PStr tn), Lit '' SET '', Val (PStr (update_set_values entity_data)),
      Lit ('' WHERE uuid = '' @ [CHR 0x27]), Val entity_uuid', Lit [CHR 0x27]]"

definition update_one ::
  "'db sqlite3 \<Rightarrow> 'a Repository \<Rightarrow> 'a entity_scheme \<Rightarrow> ('a entity_scheme option, 'db) io" where
  "update_one sqlite self entity =
     (let entity_data = map_to_repo (repo_mapper self) entity in
      bind_io (create_connection sqlite) (\<lambda>conn.
      bind_io (cursor_execute sqlite
                 (update_one_query (table_name self) entity_data (entity_uuid entity))
                 (update_params entity_data) conn) (\<lambda>(conn, _).
      bind_io (commit conn) (\<lambda>_.
      bind_io close (\<lambda>_.
      fetch_one_by_uuid sqlite self (entity_uuid entity))))))"

section \<open>UserRepository\<close>


definition fetch_users_by_user_type_query :: "string \<Rightarrow> pyval \<Rightarrow> query" where
  "fetch_users_by_user_type_query tn user_type' =
     [Lit ''SELECT * FROM '', Val (PStr tn), Lit ('' WHERE user_type = '' @ [CHR 0x27]),
      Val user_type', Lit [CHR 0x27]]"


section \<open>What the specification calls valid\<close>

text \<open>
  The data model of the specification: the email matches the pattern, the last login
  address parses as an IP address, the user type is neither below 1 nor above 3. The
  name and the identifier carry no condition.
\<close>

definition valid_email :: "pyval \<Rightarrow> bool" where
  "valid_email v = (case v of PStr s \<Rightarrow> email_syntax s | _ \<Rightarrow> False)"

definition valid_user_type :: "pyval \<Rightarrow> bool" where
  "valid_user_type v =
     (case v of
        PInt i \<Rightarrow> 1 \<le> i \<and> i \<le> 3
      | PFloat x \<Rightarrow> 1 \<le> x \<and> x \<le> 3
      | PNaN \<Rightarrow> True
      | _ \<Rightarrow> False)"

definition valid_user :: "ip_parser \<Rightarrow> user \<Rightarrow> bool" where
  "valid_user ip_address u =
     (valid_email (email u) \<and> ip_address (last_login_ip u) \<and> valid_user_type (user_type u))"

definition user_record_keys :: "string list" where
  "user_record_keys = [''uuid'', ''user_name'', ''email'', ''last_login_ip'', ''user_type'']"

section \<open>Concrete inputs\<close>

text \<open>
  To run the model an IP parser is needed. \<open>dotted_quad\<close> accepts the dotted-decimal
  IPv4 texts, which is what the tests of the repository use: four parts separated by
  dots, each of one to three ASCII digits, without a leading zero, at most 255. It
  stands for \<open>ip_address\<close> on concrete inputs only; the theorems hold for every parser.
\<close>

fun split_on :: "char \<Rightarrow> string \<Rightarrow> string list" where
  "split_on c [] = [[]]"
| "split_on c (x # xs) =
     (if x = c then [] # split_on c xs
      else (case split_on c xs of [] \<Rightarrow> [[x]] | y # ys \<Rightarrow> (x # y) # ys))"

definition is_ascii_digit :: "char \<Rightarrow> bool" where
  "is_ascii_digit c = (48 \<le> (of_char c :: nat) \<and> (of_char c :: nat) \<le> 57)"

definition decimal_value :: "string \<Rightarrow> nat" where
  "decimal_value ds = foldl (\<lambda>acc c. 10 * acc + (of_char c - 48)) 0 ds"

definition octet_ok :: "string \<Rightarrow> bool" where
  "octet_ok ds =
     (ds \<noteq> [] \<and> list_all is_ascii_digit ds \<and> length ds \<le> 3
      \<and> (ds = ''0'' \<or> take 1 ds \<noteq> ''0'') \<and> decimal_value ds \<le> 255)"

definition dotted_quad :: ip_parser where
  "dotted_quad v =
     (case v of
        PStr s \<Rightarrow> (let octets = split_on (CHR ''.'') s in length octets = 4 \<and> list_all octet_ok octets)
      | _ \<Rightarrow> False)"

text \<open>The user of \<open>TestUserSetters.setUp\<close>.\<close>

definition john_doe :: user where
  "john_doe =
     \<lparr>entity_uuid = PStr ''test-uuid'', user_name = PStr ''John Doe'',
      email = PStr ''john.doe@qt.com'', last_login_ip = PStr ''192.168.1.1'',
      user_type = PInt 1\<rparr>"

text \<open>The record of \<open>TestUserRepoMapper.test_map_from_repo\<close>.\<close>

definition jerry_li_record :: row where
  "jerry_li_record =
     [(''uuid'', PStr ''some-uuid-for-test''), (''user_name'', PStr ''Jerry Li''),
      (''email'', PStr ''jerry.li@example.com''), (''last_login_ip'', PStr ''192.168.1.1''),
      (''user_type'', PInt 1)]"

text \<open>
  SQLite is outside the repository. To run the repository on a concrete store,
  \<open>table_sqlite tn columns\<close> is one table in memory, its rows in scan order, that
  answers the statements this repository issues for the table \<open>tn\<close> with the mapped
  columns \<open>columns\<close>: the two scans, the lookup by \<open>uuid\<close>, the scan by \<open>user_type\<close>,
  the insert, the update of the columns other than \<open>uuid\<close>, the setting of \<open>deleted\<close> and
  the removal. It is not SQLite, and it is used below only where the two agree, to run
  the operations on identifiers without a quote and on the values of the tests. It does
  not read the text of a statement: it knows a statement by its pieces, and raises on
  every other one, among them a statement whose value between the quotes holds a quote,
  which SQLite reads on as SQL. It takes \<open>uuid\<close> as the primary key and \<open>user_type\<close> as
  a column of integer affinity, gives a new row \<open>deleted = 0\<close>, and stores a parameter
  as it is, where SQLite refuses an integer beyond 64 bits and stores NaN as \<open>NULL\<close>.
  The theorems that speak of \<open>sqlite\<close> hold for every behaviour of the database.
\<close>

definition where_value :: "query \<Rightarrow> pyval" where
  "where_value q = (case rev q of Lit _ # Val v # _ \<Rightarrow> v | _ \<Rightarrow> PNone)"

definition plain_text :: "pyval \<Rightarrow> bool" where
  "plain_text v = (case v of PStr s \<Rightarrow> CHR 0x27 \<notin> set s | _ \<Rightarrow> False)"

definition is_int :: "pyval \<Rightarrow> bool" where
  "is_int v = (case v of PInt _ \<Rightarrow> True | _ \<Rightarrow> False)"

definition set_column :: "string \<times> pyval \<Rightarrow> row \<Rightarrow> row" where
  "set_column kv r = map (\<lambda>(k, x). if k = fst kv then (k, snd kv) else (k, x)) r"

definition unset :: "string list \<Rightarrow> row" where
  "unset columns = map (\<lambda>c. (c, PNone)) columns"

definition table_execute ::
  "string \<Rightarrow> string list \<Rightarrow> query \<Rightarrow> pyval list \<Rightarrow> row list \<Rightarrow> exn + row list \<times> row list" where
  "table_execute tn columns q params rows =
     (let v = where_value q in
      if q = fetch_all_query tn True then Inr (rows, rows)
      else if q = fetch_all_query tn False then
        Inr (rows, filter (\<lambda>r. map_of r ''deleted'' = Some (PInt 0)) rows)
      else if q = fetch_one_by_uuid_query tn v \<and> plain_text v then
        Inr (rows, filter (\<lambda>r. map_of r ''uuid'' = Some v) rows)
      else if q = fetch_users_by_user_type_query tn v \<and> is_int v then
        Inr (rows, filter (\<lambda>r. map_of r ''user_type'' = Some v) rows)
      else if q = add_one_query tn (unset columns) \<and> length params = length columns then
        (let new = zip columns params @ [(''deleted'', PInt 0)] in
         if map_of new ''uuid'' \<in> set (map (\<lambda>r. map_of r ''uuid'') rows) then Inl SqliteError
         else Inr (rows @ [new], []))
      else if q = update_one_query tn (unset columns) v \<and> plain_text v
              \<and> length params = length (update_keys (unset columns)) then
        Inr (map (\<lambda>r. if map_of r ''uuid'' = Some v
                        then foldr set_column (zip (update_keys (unset columns)) params) r
                        else r) rows, [])
      else if q = soft_delete_query tn v \<and> plain_text v then
        Inr (map (\<lambda>r. if map_of r ''uuid'' = Some v then set_column (''deleted'', PInt 1) r else r)
               rows, [])
      else if q = delete_query tn v \<and> plain_text v then
        Inr (filter (\<lambda>r. map_of r ''uuid'' \<noteq> Some v) rows, [])
      else Inl SqliteError)"

definition table_sqlite :: "string \<Rightarrow> string list \<Rightarrow> (row list) sqlite3" where
  "table_sqlite tn columns = \<lparr>connect = (\<lambda>_. None), execute = table_execute tn columns\<rparr>"

text \<open>
  The repository of \<open>TestRepository.setUp\<close>, and a table holding the row of the user
  above.
\<close>

definition test_repo :: "unit user_ext Repository" where
  "test_repo = \<lparr>table_name = ''test_table'', repo_mapper = UserRepoMapper dotted_quad\<rparr>"

definition test_sqlite :: "(row list) sqlite3" where
  "test_sqlite = table_sqlite ''test_table'' user_record_keys"

definition john_row :: row where
  "john_row = UserRepoMapper_map_to_repo john_doe @ [(''deleted'', PInt 0)]"

definition john_world :: "(row list) world" where
  "john_world = \<lparr>database = [john_row], calls = []\<rparr>"



text \<open>
  The cursor of the tests of the repository is a \<open>MagicMock\<close>: it accepts every
  statement, and \<open>fetchall\<close> and \<open>fetchone\<close> give back the rows it was set up with.
\<close>

definition mock_sqlite :: "row list \<Rightarrow> unit sqlite3" where
  "mock_sqlite rows = \<lparr>connect = (\<lambda>_. None), execute = (\<lambda>q params db. Inr (db, rows))\<rparr>"

definition mock_world :: "unit world" where
  "mock_world = \<lparr>database = (), calls = []\<rparr>"

text \<open>A user whose identifier holds quotes: \<open>x' OR '1'='1\<close>.\<close>

definition injected_uuid :: string where
  "injected_uuid = ''x' OR '1'='1''"

definition injected_user :: user where
  "injected_user =
     \<lparr>entity_uuid = PStr injected_uuid, user_name = PStr ''John Doe'',
      email = PStr ''john.doe@qt.com'', last_login_ip = PStr ''192.168.1.1'',
      user_type = PInt 1\<rparr>"

text \<open>
  A table in which two rows carry the same \<open>uuid\<close>, and the users of the two fixture
  rows.
\<close>

definition jane_row :: row where
  "jane_row = set_column (''user_name'', PStr ''Jane Doe'') john_row"

definition twin_world :: "(row list) world" where
  "twin_world = \<lparr>database = [john_row, jane_row], calls = []\<rparr>"



section \<open>The email pattern\<close>

lemma re_match_at_PlusSet:
  "re_match_at (PlusSet P # r) pos s \<longleftrightarrow>
     (\<exists>a b. s = a @ b \<and> a \<noteq> [] \<and> list_all P a \<and> re_match_at r (pos + length a) b)"
proof (induction s arbitrary: pos)
  case Nil
  then show ?case by simp
next
  case (Cons x xs)
  show ?case
  proof
    assume L: "re_match_at (PlusSet P # r) pos (x # xs)"
    then have px: "P x" by simp
    from L consider "re_match_at (PlusSet P # r) (Suc pos) xs" | "re_match_at r (Suc pos) xs"
      by auto
    then show "\<exists>a b. x # xs = a @ b \<and> a \<noteq> [] \<and> list_all P a \<and> re_match_at r (pos + length a) b"
    proof cases
      case 1
      then obtain a b where "xs = a @ b" "a \<noteq> []" "list_all P a" "re_match_at r (Suc pos + length a) b"
        using Cons.IH by blast
      then have "x # xs = (x # a) @ b \<and> x # a \<noteq> [] \<and> list_all P (x # a) \<and> re_match_at r (pos + length (x # a)) b"
        using px by simp
      then show ?thesis by blast
    next
      case 2
      then have "x # xs = [x] @ xs \<and> [x] \<noteq> [] \<and> list_all P [x] \<and> re_match_at r (pos + length [x]) xs"
        using px by simp
      then show ?thesis by blast
    qed
  next
    assume "\<exists>a b. x # xs = a @ b \<and> a \<noteq> [] \<and> list_all P a \<and> re_match_at r (pos + length a) b"
    then obtain a b where ab: "x # xs = a @ b" "a \<noteq> []" "list_all P a" "re_match_at r (pos + length a) b"
      by blast
    then obtain a' where a: "a = x # a'" by (cases a) auto
    with ab have xs: "xs = a' @ b" and px: "P x" and pa: "list_all P a'"
      and m: "re_match_at r (Suc pos + length a') b" by auto
    show "re_match_at (PlusSet P # r) pos (x # xs)"
    proof (cases "a' = []")
      case True
      with xs m px show ?thesis by simp
    next
      case False
      with xs pa m have "re_match_at (PlusSet P # r) (Suc pos) xs"
        using Cons.IH by blast
      with px show ?thesis by simp
    qed
  qed
qed

lemma re_match_at_Chr:
  "re_match_at (Chr c # r) pos s \<longleftrightarrow> (\<exists>xs. s = c # xs \<and> re_match_at r (Suc pos) xs)"
  by (cases s) auto

lemma re_match_at_Eol: "re_match_at [Eol] pos s \<longleftrightarrow> (s = [] \<or> s = [CHR 0x0A])"
  by simp

lemma re_match_email_pattern_split:
  "re_match email_pattern s \<longleftrightarrow>
     (\<exists>l d t z. s = l @ CHR ''@'' # d @ CHR ''.'' # t @ z
        \<and> l \<noteq> [] \<and> list_all word_dot_dash l
        \<and> d \<noteq> [] \<and> list_all word_dot_dash d
        \<and> t \<noteq> [] \<and> list_all word_char t \<and> (z = [] \<or> z = [CHR 0x0A]))"
  (is "?L \<longleftrightarrow> ?R")
proof
  assume ?L
  then have "re_match_at [PlusSet word_dot_dash, Chr (CHR ''@''), PlusSet word_dot_dash,
      Chr (CHR ''.''), PlusSet word_char, Eol] 0 s"
    by (simp add: re_match_def email_pattern_def)
  then obtain l b1 where 1: "s = l @ b1" "l \<noteq> []" "list_all word_dot_dash l"
    "re_match_at [Chr (CHR ''@''), PlusSet word_dot_dash, Chr (CHR ''.''), PlusSet word_char, Eol]
       (0 + length l) b1"
    unfolding re_match_at_PlusSet by blast
  then obtain b2 where 2: "b1 = CHR ''@'' # b2"
    "re_match_at [PlusSet word_dot_dash, Chr (CHR ''.''), PlusSet word_char, Eol] (Suc (0 + length l)) b2"
    unfolding re_match_at_Chr by blast
  then obtain d b3 where 3: "b2 = d @ b3" "d \<noteq> []" "list_all word_dot_dash d"
    "re_match_at [Chr (CHR ''.''), PlusSet word_char, Eol] (Suc (0 + length l) + length d) b3"
    unfolding re_match_at_PlusSet by blast
  then obtain b4 where 4: "b3 = CHR ''.'' # b4"
    "re_match_at [PlusSet word_char, Eol] (Suc (Suc (0 + length l) + length d)) b4"
    unfolding re_match_at_Chr by blast
  then obtain t z where 5: "b4 = t @ z" "t \<noteq> []" "list_all word_char t"
    "re_match_at [Eol] (Suc (Suc (0 + length l) + length d) + length t) z"
    unfolding re_match_at_PlusSet by blast
  from 5(4) have 6: "z = [] \<or> z = [CHR 0x0A]"
    unfolding re_match_at_Eol .
  have "s = l @ CHR ''@'' # d @ CHR ''.'' # t @ z"
    using 1(1) 2(1) 3(1) 4(1) 5(1) by simp
  with 1 3 5 6 show ?R by blast
next
  assume ?R
  then obtain l d t z where s: "s = l @ CHR ''@'' # d @ CHR ''.'' # t @ z"
    and l: "l \<noteq> []" "list_all word_dot_dash l"
    and d: "d \<noteq> []" "list_all word_dot_dash d"
    and t: "t \<noteq> []" "list_all word_char t" and z: "z = [] \<or> z = [CHR 0x0A]"
    by blast
  have e: "re_match_at [Eol] p z" for p
    using z unfolding re_match_at_Eol .
  have 5: "re_match_at [PlusSet word_char, Eol] p (t @ z)" for p
    unfolding re_match_at_PlusSet using t e by blast
  have 4: "re_match_at [Chr (CHR ''.''), PlusSet word_char, Eol] p (CHR ''.'' # t @ z)" for p
    unfolding re_match_at_Chr using 5 by blast
  have 3: "re_match_at [PlusSet word_dot_dash, Chr (CHR ''.''), PlusSet word_char, Eol] p
             (d @ CHR ''.'' # t @ z)" for p
    unfolding re_match_at_PlusSet using d 4 by blast
  have 2: "re_match_at [Chr (CHR ''@''), PlusSet word_dot_dash, Chr (CHR ''.''), PlusSet word_char, Eol] p
             (CHR ''@'' # d @ CHR ''.'' # t @ z)" for p
    unfolding re_match_at_Chr using 3 by blast
  have 1: "re_match_at [PlusSet word_dot_dash, Chr (CHR ''@''), PlusSet word_dot_dash,
             Chr (CHR ''.''), PlusSet word_char, Eol] 0 s"
    unfolding re_match_at_PlusSet s using l 2 by blast
  then show ?L
    by (simp add: re_match_def email_pattern_def)
qed

lemma re_match_email_pattern: "re_match email_pattern s = email_syntax s"
proof -
  have "email_syntax s \<longleftrightarrow>
     (\<exists>l d t z. s = l @ CHR ''@'' # d @ CHR ''.'' # t @ z
        \<and> l \<noteq> [] \<and> list_all word_dot_dash l
        \<and> d \<noteq> [] \<and> list_all word_dot_dash d
        \<and> t \<noteq> [] \<and> list_all word_char t \<and> (z = [] \<or> z = [CHR 0x0A]))"
    (is "_ \<longleftrightarrow> ?R")
  proof
    assume "email_syntax s"
    then consider "email_shape s" | s' where "s = s' @ [CHR 0x0A]" "email_shape s'"
      unfolding email_syntax_def by blast
    then show ?R
    proof cases
      case 1
      then obtain l d t where "s = l @ CHR ''@'' # d @ CHR ''.'' # t @ []"
        "l \<noteq> []" "list_all word_dot_dash l" "d \<noteq> []" "list_all word_dot_dash d"
        "t \<noteq> []" "list_all word_char t"
        unfolding email_shape_def by auto
      then show ?thesis by blast
    next
      case 2
      then obtain l d t where "s = l @ CHR ''@'' # d @ CHR ''.'' # t @ [CHR 0x0A]"
        "l \<noteq> []" "list_all word_dot_dash l" "d \<noteq> []" "list_all word_dot_dash d"
        "t \<noteq> []" "list_all word_char t"
        unfolding email_shape_def by auto
      then show ?thesis by blast
    qed
  next
    assume ?R
    then obtain l d t z where s: "s = l @ CHR ''@'' # d @ CHR ''.'' # t @ z"
      and c: "l \<noteq> []" "list_all word_dot_dash l" "d \<noteq> []" "list_all word_dot_dash d"
        "t \<noteq> []" "list_all word_char t"
      and z: "z = [] \<or> z = [CHR 0x0A]"
      by blast
    have sh: "email_shape (l @ CHR ''@'' # d @ CHR ''.'' # t)"
      unfolding email_shape_def using c by blast
    from z show "email_syntax s"
    proof
      assume "z = []"
      with s sh show ?thesis by (simp add: email_syntax_def)
    next
      assume "z = [CHR 0x0A]"
      with s have "s = (l @ CHR ''@'' # d @ CHR ''.'' # t) @ [CHR 0x0A]" by simp
      with sh show ?thesis unfolding email_syntax_def by blast
    qed
  qed
  then show ?thesis
    using re_match_email_pattern_split by simp
qed

section \<open>The setters and the constructor\<close>

text \<open>Each setter, and the constructor built from them, in terms of what is valid.\<close>

lemma email_setter_eq:
  "email_setter v u =
     (if valid_email v then (None, u\<lparr>email := v\<rparr>)
      else (Some (case v of PStr _ \<Rightarrow> ValueError | _ \<Rightarrow> TypeError), u))"
  by (cases v) (simp_all add: email_setter_def valid_email_def re_match_email_pattern)

lemma user_type_setter_eq:
  "user_type_setter v u =
     (if valid_user_type v then (None, u\<lparr>user_type := v\<rparr>)
      else (Some (case py_lt_int v 1 of Inl e \<Rightarrow> e | Inr _ \<Rightarrow> ValueError), u))"
  by (cases v) (auto simp add: user_type_setter_def valid_user_type_def)

lemma last_login_ip_setter_eq:
  "last_login_ip_setter ip v u =
     (if ip v then (None, u\<lparr>last_login_ip := v\<rparr>) else (Some ValueError, u))"
  by (simp add: last_login_ip_setter_def)

lemma User_init_eq:
  "User_init ip a b c d t =
     (if \<not> valid_email c then Inl (case c of PStr _ \<Rightarrow> ValueError | _ \<Rightarrow> TypeError)
      else if \<not> ip d then Inl ValueError
      else if \<not> valid_user_type t then Inl (case py_lt_int t 1 of Inl e \<Rightarrow> e | Inr _ \<Rightarrow> ValueError)
      else Inr \<lparr>entity_uuid = a, user_name = b, email = c, last_login_ip = d, user_type = t\<rparr>)"
  by (simp add: User_init_def Entity_init_def user_name_setter_def email_setter_eq
      last_login_ip_setter_eq user_type_setter_eq entity.defs user.defs)

lemma user_type_setter_PInt:
  "user_type_setter (PInt i) u =
     (if i < 1 \<or> i > 3 then (Some ValueError, u) else (None, u\<lparr>user_type := PInt i\<rparr>))"
  by (simp add: user_type_setter_def)

lemma user_type_setter_PFloat:
  "user_type_setter (PFloat x) u =
     (if x < 1 \<or> x > 3 then (Some ValueError, u) else (None, u\<lparr>user_type := PFloat x\<rparr>))"
  by (simp add: user_type_setter_def)

lemma user_type_setter_ValueError:
  "user_type_setter v u = (Some ValueError, u)
     \<longleftrightarrow> py_lt_int v 1 = Inr True \<or> py_gt_int v 3 = Inr True"
  by (cases v) (simp_all add: user_type_setter_def split: bool.splits)

text \<open>
  Claim C3. For every string, assigning it to the email of a user succeeds and stores
  exactly that string when it matches the pattern \<open>^[\w.-]+@[\w.-]+\.\w+$\<close>, and raises
  \<open>ValueError\<close> with the user as it was when it does not. Matching is Python's: the
  text \<open>local@domain.tld\<close>, possibly with one final newline after it.
\<close>

theorem email_assignment:
  "(email_syntax s \<longrightarrow> email_setter (PStr s) u = (None, u\<lparr>email := PStr s\<rparr>))
   \<and> (\<not> email_syntax s \<longrightarrow> email_setter (PStr s) u = (Some ValueError, u))"
  by (simp add: email_setter_eq valid_email_def)

theorem email_assignment_witness:
  "email_syntax ''lee@example.com''
   \<and> email_setter (PStr ''lee@example.com'') john_doe = (None, john_doe\<lparr>email := PStr ''lee@example.com''\<rparr>)
   \<and> \<not> email_syntax ''invalid''
   \<and> email_setter (PStr ''invalid'') john_doe = (Some ValueError, john_doe)
   \<and> email (snd (email_setter (PStr ''invalid'') john_doe)) = PStr ''john.doe@qt.com''"
proof -
  have a: "email_syntax ''lee@example.com''"
    unfolding re_match_email_pattern [symmetric] by code_simp
  have b: "\<not> email_syntax ''invalid''"
    unfolding re_match_email_pattern [symmetric] by code_simp
  show ?thesis
    using a b email_assignment [of "''lee@example.com''" john_doe]
      email_assignment [of "''invalid''" john_doe]
    by (simp add: john_doe_def)
qed

text \<open>
  Claim C9. The user type setter raises its \<open>ValueError\<close> exactly when \<open>value < 1\<close>
  or \<open>value > 3\<close> holds; it does not ask for an integer, so every float between 1 and 3
  is stored as the user type.
\<close>

theorem user_type_no_integrality_check:
  "(user_type_setter v u = (Some ValueError, u)
      \<longleftrightarrow> py_lt_int v 1 = Inr True \<or> py_gt_int v 3 = Inr True)
   \<and> user_type_setter (PInt i) u =
       (if i < 1 \<or> i > 3 then (Some ValueError, u) else (None, u\<lparr>user_type := PInt i\<rparr>))
   \<and> user_type_setter (PFloat x) u =
       (if x < 1 \<or> x > 3 then (Some ValueError, u) else (None, u\<lparr>user_type := PFloat x\<rparr>))
   \<and> (1 \<le> x \<and> x \<le> 3 \<longrightarrow> user_type_setter (PFloat x) u = (None, u\<lparr>user_type := PFloat x\<rparr>))"
  using user_type_setter_ValueError [of v u] user_type_setter_PInt [of i u]
    user_type_setter_PFloat [of x u]
  by simp

theorem user_type_no_integrality_check_witness:
  "(1::real) \<le> 5 / 2 \<and> (5 / 2 :: real) \<le> 3 \<and> (5 / 2 :: real) \<notin> \<int>
   \<and> user_type_setter (PFloat (5 / 2)) john_doe = (None, john_doe\<lparr>user_type := PFloat (5 / 2)\<rparr>)
   \<and> user_type (snd (user_type_setter (PFloat (5 / 2)) john_doe)) = PFloat (5 / 2)
   \<and> user_type_setter (PInt 4) john_doe = (Some ValueError, john_doe)
   \<and> user_type_setter (PInt 0) john_doe = (Some ValueError, john_doe)"
proof -
  have "(5 / 2 :: real) \<notin> \<int>"
  proof
    assume "(5 / 2 :: real) \<in> \<int>"
    then obtain k :: int where "(5 / 2 :: real) = of_int k" by (auto elim: Ints_cases)
    then have "(5::real) = of_int (2 * k)" by simp
    then have "(5::int) = 2 * k" by (metis of_int_eq_iff of_int_numeral)
    then show False by presburger
  qed
  then show ?thesis
    using user_type_no_integrality_check [of "PFloat (5/2)" john_doe 4 "5/2"]
      user_type_no_integrality_check [of "PFloat (5/2)" john_doe 0 "5/2"]
    by simp
qed

section \<open>Validation on every assignment\<close>

lemma User_init_valid:
  "User_init ip a b c d t = Inr u \<Longrightarrow> valid_user ip u"
  by (auto simp add: User_init_eq valid_user_def split: if_splits)

lemma User_init_Inr_iff:
  "(\<exists>u. User_init ip a b c d t = Inr u) \<longleftrightarrow> valid_email c \<and> ip d \<and> valid_user_type t"
  by (auto simp add: User_init_eq split: if_splits)

lemma setters_keep_valid:
  "valid_user ip u \<Longrightarrow> valid_user ip (snd (user_name_setter v u))"
  "valid_user ip u \<Longrightarrow> valid_user ip (snd (email_setter v u))"
  "valid_user ip u \<Longrightarrow> valid_user ip (snd (last_login_ip_setter ip v u))"
  "valid_user ip u \<Longrightarrow> valid_user ip (snd (user_type_setter v u))"
  by (simp_all add: user_name_setter_def email_setter_eq last_login_ip_setter_eq
      user_type_setter_eq valid_user_def)

lemma dotted_quad_examples:
  "dotted_quad (PStr ''192.168.1.1'')" "dotted_quad (PStr ''192.168.1.2'')"
  "\<not> dotted_quad (PStr ''192.invalid'')"
  by code_simp+

lemma valid_email_examples:
  "valid_email (PStr ''john.doe@qt.com'')" "valid_email (PStr ''lee@example.com'')"
  "\<not> valid_email (PStr ''invalid'')"
  unfolding valid_email_def pyval.case re_match_email_pattern [symmetric]
  by code_simp+

text \<open>
  Claim C2. Every assignment to one of the four fields of a user goes through the check
  of that field, the same one the constructor runs: a value that fails it raises and the
  object stays as it was; a value that passes is stored. The name has no check, so every
  assignment to it is stored. A value of the wrong Python type fails inside the check
  itself, with \<open>TypeError\<close>.
\<close>

theorem assignments_validated:
  "user_name_setter v u = (None, u\<lparr>user_name := v\<rparr>)
   \<and> (valid_email v \<longrightarrow> email_setter v u = (None, u\<lparr>email := v\<rparr>))
   \<and> (\<not> valid_email v \<longrightarrow>
        email_setter v u = (Some (case v of PStr _ \<Rightarrow> ValueError | _ \<Rightarrow> TypeError), u))
   \<and> (ip v \<longrightarrow> last_login_ip_setter ip v u = (None, u\<lparr>last_login_ip := v\<rparr>))
   \<and> (\<not> ip v \<longrightarrow> last_login_ip_setter ip v u = (Some ValueError, u))
   \<and> (valid_user_type v \<longrightarrow> user_type_setter v u = (None, u\<lparr>user_type := v\<rparr>))
   \<and> (\<not> valid_user_type v \<longrightarrow>
        user_type_setter v u
          = (Some (case py_lt_int v 1 of Inl e \<Rightarrow> e | Inr _ \<Rightarrow> ValueError), u))
   \<and> ((\<exists>u'. User_init ip a b c d t = Inr u') \<longleftrightarrow> valid_email c \<and> ip d \<and> valid_user_type t)"
  using User_init_Inr_iff [of ip a b c d t]
  by (simp add: user_name_setter_def email_setter_eq last_login_ip_setter_eq user_type_setter_eq)

theorem assignments_validated_witness:
  "User_init dotted_quad (PStr ''test-uuid'') (PStr ''John Doe'') (PStr ''john.doe@qt.com'')
       (PStr ''192.168.1.1'') (PInt 1) = Inr john_doe
   \<and> email_setter (PStr ''lee@example.com'') john_doe
       = (None, john_doe\<lparr>email := PStr ''lee@example.com''\<rparr>)
   \<and> email_setter (PStr ''invalid'') john_doe = (Some ValueError, john_doe)
   \<and> last_login_ip_setter dotted_quad (PStr ''192.168.1.2'') john_doe
       = (None, john_doe\<lparr>last_login_ip := PStr ''192.168.1.2''\<rparr>)
   \<and> last_login_ip_setter dotted_quad (PStr ''192.invalid'') john_doe = (Some ValueError, john_doe)
   \<and> user_type_setter (PInt 2) john_doe = (None, john_doe\<lparr>user_type := PInt 2\<rparr>)
   \<and> user_type_setter (PInt 4) john_doe = (Some ValueError, john_doe)"
proof -
  have init: "User_init dotted_quad (PStr ''test-uuid'') (PStr ''John Doe'')
      (PStr ''john.doe@qt.com'') (PStr ''192.168.1.1'') (PInt 1) = Inr john_doe"
    by (simp add: User_init_eq valid_email_examples dotted_quad_examples valid_user_type_def
        john_doe_def)
  have ty: "valid_user_type (PInt 2)" "\<not> valid_user_type (PInt 4)"
    by (simp_all add: valid_user_type_def)
  show ?thesis
    using init valid_email_examples dotted_quad_examples ty
      assignments_validated [of "PStr ''lee@example.com''" john_doe dotted_quad]
      assignments_validated [of "PStr ''invalid''" john_doe dotted_quad]
      assignments_validated [of "PStr ''192.168.1.2''" john_doe dotted_quad]
      assignments_validated [of "PStr ''192.invalid''" john_doe dotted_quad]
      assignments_validated [of "PInt 2" john_doe dotted_quad]
      assignments_validated [of "PInt 4" john_doe dotted_quad]
    by simp
qed

section \<open>The mapper\<close>

lemma UserRepoMapper_simps:
  "map_from_repo (UserRepoMapper ip) = UserRepoMapper_map_from_repo ip"
  "map_to_repo (UserRepoMapper ip) = UserRepoMapper_map_to_repo"
  by (simp_all add: UserRepoMapper_def)

text \<open>
  Claim C4. For every valid user, mapping it to a record and the record back succeeds
  and gives the same user: identifier, name, email, address and type are those of the
  original.
\<close>

theorem mapper_round_trip:
  "valid_user ip u \<Longrightarrow>
     map_from_repo (UserRepoMapper ip) (map_to_repo (UserRepoMapper ip) u) = Inr u"
  by (simp add: UserRepoMapper_simps UserRepoMapper_map_from_repo_def
      UserRepoMapper_map_to_repo_def getitem_def User_init_eq valid_user_def)

theorem mapper_round_trip_witness:
  "valid_user dotted_quad john_doe
   \<and> map_from_repo (UserRepoMapper dotted_quad) (map_to_repo (UserRepoMapper dotted_quad) john_doe)
       = Inr john_doe"
proof -
  have v: "valid_user dotted_quad john_doe"
    by (simp add: valid_user_def john_doe_def valid_email_examples dotted_quad_examples
        valid_user_type_def)
  with mapper_round_trip [OF v] show ?thesis by simp
qed

lemma map_from_repo_present:
  assumes "map_of r ''uuid'' = Some a" "map_of r ''user_name'' = Some b"
    "map_of r ''email'' = Some c" "map_of r ''last_login_ip'' = Some d"
    "map_of r ''user_type'' = Some t"
  shows "UserRepoMapper_map_from_repo ip r = User_init ip a b c d t"
  using assms by (simp add: UserRepoMapper_map_from_repo_def getitem_def)

lemma map_from_repo_missing:
  assumes "k \<in> set user_record_keys" "map_of r k = None"
  shows "UserRepoMapper_map_from_repo ip r = Inl KeyError"
  using assms
  by (auto simp add: UserRepoMapper_map_from_repo_def getitem_def user_record_keys_def
      split: option.splits)

text \<open>
  Claim C7. Mapping a record to a user fails with \<open>KeyError\<close> when one of the five
  keys is missing, fails with the constructor's \<open>ValueError\<close> or \<open>TypeError\<close> when a
  value does not pass entity validation, and otherwise constructs the user with the five
  values of the record.
\<close>

theorem map_from_repo_fails_or_constructs:
  "((\<exists>k \<in> set user_record_keys. map_of r k = None)
      \<longrightarrow> map_from_repo (UserRepoMapper ip) r = Inl KeyError)
   \<and> (map_of r ''uuid'' = Some a \<and> map_of r ''user_name'' = Some b \<and> map_of r ''email'' = Some c
        \<and> map_of r ''last_login_ip'' = Some d \<and> map_of r ''user_type'' = Some t
      \<longrightarrow> (\<not> (valid_email c \<and> ip d \<and> valid_user_type t)
             \<longrightarrow> (\<exists>e. map_from_repo (UserRepoMapper ip) r = Inl e \<and> (e = ValueError \<or> e = TypeError)))
          \<and> (valid_email c \<and> ip d \<and> valid_user_type t
             \<longrightarrow> map_from_repo (UserRepoMapper ip) r
                   = Inr \<lparr>entity_uuid = a, user_name = b, email = c, last_login_ip = d,
                          user_type = t\<rparr>))"
proof (intro conjI impI)
  assume "\<exists>k \<in> set user_record_keys. map_of r k = None"
  then show "map_from_repo (UserRepoMapper ip) r = Inl KeyError"
    using map_from_repo_missing by (auto simp add: UserRepoMapper_simps)
next
  assume p: "map_of r ''uuid'' = Some a \<and> map_of r ''user_name'' = Some b \<and> map_of r ''email'' = Some c
        \<and> map_of r ''last_login_ip'' = Some d \<and> map_of r ''user_type'' = Some t"
  then have eq: "map_from_repo (UserRepoMapper ip) r = User_init ip a b c d t"
    using map_from_repo_present by (simp add: UserRepoMapper_simps)
  {
    assume "\<not> (valid_email c \<and> ip d \<and> valid_user_type t)"
    then show "\<exists>e. map_from_repo (UserRepoMapper ip) r = Inl e \<and> (e = ValueError \<or> e = TypeError)"
      unfolding eq User_init_eq
      by (cases c; cases t) (auto split: sum.splits)
  }
  {
    assume "valid_email c \<and> ip d \<and> valid_user_type t"
    then show "map_from_repo (UserRepoMapper ip) r
                   = Inr \<lparr>entity_uuid = a, user_name = b, email = c, last_login_ip = d,
                          user_type = t\<rparr>"
      unfolding eq User_init_eq by simp
  }
qed

theorem map_from_repo_fails_or_constructs_witness:
  "map_from_repo (UserRepoMapper dotted_quad) (tl jerry_li_record) = Inl KeyError
   \<and> (\<exists>e. map_from_repo (UserRepoMapper dotted_quad)
              ((''email'', PStr ''invalid'') # jerry_li_record) = Inl e
          \<and> (e = ValueError \<or> e = TypeError))
   \<and> map_from_repo (UserRepoMapper dotted_quad) jerry_li_record
       = Inr \<lparr>entity_uuid = PStr ''some-uuid-for-test'', user_name = PStr ''Jerry Li'',
              email = PStr ''jerry.li@example.com'', last_login_ip = PStr ''192.168.1.1'',
              user_type = PInt 1\<rparr>"
proof -
  have e: "valid_email (PStr ''jerry.li@example.com'')" "\<not> valid_email (PStr ''invalid'')"
    unfolding valid_email_def pyval.case re_match_email_pattern [symmetric]
    by code_simp+
  have t: "valid_user_type (PInt 1)"
    by (simp add: valid_user_type_def)
  have k: "\<exists>k \<in> set user_record_keys. map_of (tl jerry_li_record) k = None"
    by (simp add: user_record_keys_def jerry_li_record_def)
  show ?thesis
    using e t k dotted_quad_examples
      map_from_repo_fails_or_constructs [where r = "tl jerry_li_record" and ip = dotted_quad]
      map_from_repo_fails_or_constructs [where r = "(''email'', PStr ''invalid'') # jerry_li_record"
        and ip = dotted_quad and a = "PStr ''some-uuid-for-test''" and b = "PStr ''Jerry Li''"
        and c = "PStr ''invalid''" and d = "PStr ''192.168.1.1''" and t = "PInt 1"]
      map_from_repo_fails_or_constructs [where r = jerry_li_record
        and ip = dotted_quad and a = "PStr ''some-uuid-for-test''" and b = "PStr ''Jerry Li''"
        and c = "PStr ''jerry.li@example.com''" and d = "PStr ''192.168.1.1''" and t = "PInt 1"]
    by (simp add: jerry_li_record_def)
qed

section \<open>The statements\<close>

text \<open>
  The statements that the tests of the repository expect, and the two statements built
  from the record of a user.
\<close>

lemma statements_of_the_tests:
  "render (fetch_all_query ''test_table'' False) = Some ''SELECT * FROM test_table WHERE deleted = 0''"
  "render (fetch_all_query ''test_table'' True) = Some ''SELECT * FROM test_table''"
  "render (fetch_one_by_uuid_query ''test_table'' (PStr ''test-uuid''))
     = Some (''SELECT * FROM test_table WHERE uuid = '' @ [CHR 0x27] @ ''test-uuid'' @ [CHR 0x27])"
  "render (delete_query ''test_table'' (PStr ''test-uuid''))
     = Some (''DELETE FROM test_table Where uuid = '' @ [CHR 0x27] @ ''test-uuid'' @ [CHR 0x27])"
  "render (soft_delete_query ''test_table'' (PStr ''test-uuid''))
     = Some (''UPDATE test_table SET deleted = 1 WHERE uuid = '' @ [CHR 0x27] @ ''test-uuid'' @ [CHR 0x27])"
  "render (fetch_users_by_user_type_query ''user'' (PInt 1))
     = Some (''SELECT * FROM user WHERE user_type = '' @ [CHR 0x27] @ ''1'' @ [CHR 0x27])"
  by code_simp+

lemma statements_of_a_user:
  "render (add_one_query ''user'' (UserRepoMapper_map_to_repo u))
     = Some ''INSERT INTO user (uuid, user_name, email, last_login_ip, user_type) VALUES (?, ?, ?, ?, ?)''"
  "render (update_one_query ''user'' (UserRepoMapper_map_to_repo u) (PStr ''test-uuid''))
     = Some (''UPDATE user SET user_name = ?, email = ?, last_login_ip = ?, user_type = ? WHERE uuid = ''
             @ [CHR 0x27] @ ''test-uuid'' @ [CHR 0x27])"
  by (simp_all add: render_def format_value_def add_one_query_def update_one_query_def
      update_set_values_def update_keys_def UserRepoMapper_map_to_repo_def)

section \<open>The repository over any database\<close>

text \<open>
  Each operation written out as the calls it makes and the result it gives, for every
  behaviour of the database. An exception of the database ends the operation where it is
  raised and reaches the caller.
\<close>

lemma fetch_one_by_uuid_eq:
  "fetch_one_by_uuid sqlite self uid w =
     (let q = fetch_one_by_uuid_query (table_name self) uid in
      case connect sqlite (database w) of
        Some e \<Rightarrow> (Inl e, w\<lparr>calls := calls w @ [Connect]\<rparr>)
      | None \<Rightarrow>
          (case execute sqlite q [] (database w) of
             Inl e \<Rightarrow> (Inl e, w\<lparr>calls := calls w @ [Connect, Execute q []]\<rparr>)
           | Inr (conn, rows) \<Rightarrow>
               ((case rows of
                   [] \<Rightarrow> Inr None
                 | r # _ \<Rightarrow> if r = [] then Inr None
                            else map_sum id Some (map_from_repo (repo_mapper self) r)),
                w\<lparr>calls := calls w @ [Connect, Execute q [], Fetchone, Close]\<rparr>)))"
  by (simp add: fetch_one_by_uuid_def bind_io_def create_connection_def cursor_execute_def
      fetchone_def close_def return_io_def lift_io_def record_call_def Let_def
      split: option.splits sum.splits list.splits prod.splits)

lemma fetch_one_by_uuid_Inr:
  assumes "fetch_one_by_uuid sqlite self uid w = (Inr r, w')"
  shows "database w' = database w"
    and "calls w' = calls w @ [Connect, Execute (fetch_one_by_uuid_query (table_name self) uid) [],
                               Fetchone, Close]"
  using assms
  by (auto simp add: fetch_one_by_uuid_eq Let_def split: option.splits sum.splits)


lemma mutation_eq:
  "bind_io (create_connection sqlite) (\<lambda>conn.
     bind_io (cursor_execute sqlite q params conn) (\<lambda>(conn, _).
     bind_io (commit conn) (\<lambda>_.
     bind_io close (\<lambda>_. k)))) w =
   (case connect sqlite (database w) of
      Some e \<Rightarrow> (Inl e, w\<lparr>calls := calls w @ [Connect]\<rparr>)
    | None \<Rightarrow>
        (case execute sqlite q params (database w) of
           Inl e \<Rightarrow> (Inl e, w\<lparr>calls := calls w @ [Connect, Execute q params]\<rparr>)
         | Inr (db', _) \<Rightarrow>
             k (w\<lparr>database := db', calls := calls w @ [Connect, Execute q params, Commit, Close]\<rparr>)))"
  by (simp add: bind_io_def create_connection_def cursor_execute_def commit_def close_def
      record_call_def split: option.splits sum.splits prod.splits)

lemma delete_one_by_uuid_eq:
  "delete_one_by_uuid sqlite self uid w =
     (case fetch_one_by_uuid sqlite self uid w of
        (Inl e, w1) \<Rightarrow> (Inl e, w1)
      | (Inr None, w1) \<Rightarrow> (Inr None, w1)
      | (Inr (Some ent), w1) \<Rightarrow>
          (let q = delete_query (table_name self) uid in
           case connect sqlite (database w1) of
             Some e \<Rightarrow> (Inl e, w1\<lparr>calls := calls w1 @ [Connect]\<rparr>)
           | None \<Rightarrow>
               (case execute sqlite q [] (database w1) of
                  Inl e \<Rightarrow> (Inl e, w1\<lparr>calls := calls w1 @ [Connect, Execute q []]\<rparr>)
                | Inr (db', _) \<Rightarrow>
                    (Inr (Some ent),
                     w1\<lparr>database := db', calls := calls w1 @ [Connect, Execute q [], Commit, Close]\<rparr>))))"
  unfolding delete_one_by_uuid_def
  by (subst bind_io_def) (simp add: mutation_eq return_io_def Let_def
      split: prod.splits sum.splits option.splits)

lemma soft_delete_one_by_uuid_eq:
  "soft_delete_one_by_uuid sqlite self uid w =
     (case fetch_one_by_uuid sqlite self uid w of
        (Inl e, w1) \<Rightarrow> (Inl e, w1)
      | (Inr None, w1) \<Rightarrow> (Inr None, w1)
      | (Inr (Some ent), w1) \<Rightarrow>
          (let q = soft_delete_query (table_name self) uid in
           case connect sqlite (database w1) of
             Some e \<Rightarrow> (Inl e, w1\<lparr>calls := calls w1 @ [Connect]\<rparr>)
           | None \<Rightarrow>
               (case execute sqlite q [] (database w1) of
                  Inl e \<Rightarrow> (Inl e, w1\<lparr>calls := calls w1 @ [Connect, Execute q []]\<rparr>)
                | Inr (db', _) \<Rightarrow>
                    (Inr (Some ent),
                     w1\<lparr>database := db', calls := calls w1 @ [Connect, Execute q [], Commit, Close]\<rparr>))))"
  unfolding soft_delete_one_by_uuid_def
  by (subst bind_io_def) (simp add: mutation_eq return_io_def Let_def
      split: prod.splits sum.splits option.splits)



lemma update_one_eq:
  "update_one sqlite self ent w =
     (let entity_data = map_to_repo (repo_mapper self) ent;
          q = update_one_query (table_name self) entity_data (entity_uuid ent);
          params = update_params entity_data in
      case connect sqlite (database w) of
        Some e \<Rightarrow> (Inl e, w\<lparr>calls := calls w @ [Connect]\<rparr>)
      | None \<Rightarrow>
          (case execute sqlite q params (database w) of
             Inl e \<Rightarrow> (Inl e, w\<lparr>calls := calls w @ [Connect, Execute q params]\<rparr>)
           | Inr (db', _) \<Rightarrow>
               fetch_one_by_uuid sqlite self (entity_uuid ent)
                 (w\<lparr>database := db', calls := calls w @ [Connect, Execute q params, Commit, Close]\<rparr>)))"
  unfolding update_one_def Let_def mutation_eq ..

text \<open>
  The keys of the \<open>SET\<close> clause never hold \<open>uuid\<close>; for a user they are the four
  other columns, with the four values as parameters.
\<close>

lemma uuid_not_in_update_keys: "''uuid'' \<notin> set (update_keys entity_data)"
  by (simp add: update_keys_def)

lemma user_update_set_values:
  "update_set_values (UserRepoMapper_map_to_repo u)
     = ''user_name = ?, email = ?, last_login_ip = ?, user_type = ?''"
  by (simp add: update_set_values_def update_keys_def UserRepoMapper_map_to_repo_def)

lemma user_update_params:
  "update_params (UserRepoMapper_map_to_repo u) = [user_name u, email u, last_login_ip u, user_type u]"
  by (simp add: update_params_def UserRepoMapper_map_to_repo_def)

section \<open>Deleting\<close>

text \<open>
  Claim C1, as amended. When the presence check \<open>fetch_one_by_uuid\<close> finds no row for
  the identifier, \<open>delete_one_by_uuid\<close> and \<open>soft_delete_one_by_uuid\<close> return none and
  do nothing beyond that check: its one connection and its one \<open>SELECT\<close> are the only
  calls made, and the database is the one before.
\<close>

theorem delete_of_absent_id:
  assumes "fetch_one_by_uuid sqlite self uid w = (Inr None, w')"
  shows "delete_one_by_uuid sqlite self uid w = (Inr None, w')
         \<and> soft_delete_one_by_uuid sqlite self uid w = (Inr None, w')
         \<and> database w' = database w
         \<and> calls w' = calls w @ [Connect, Execute (fetch_one_by_uuid_query (table_name self) uid) [],
                                  Fetchone, Close]"
  using assms fetch_one_by_uuid_Inr [OF assms]
  by (simp add: delete_one_by_uuid_eq soft_delete_one_by_uuid_eq)

text \<open>On a table without the identifier, the three operations leave the same trace.\<close>

theorem delete_of_absent_id_witness:
  "fetch_one_by_uuid test_sqlite test_repo (PStr ''non-existing-uuid'') john_world
     = (Inr None,
        john_world\<lparr>calls :=
          [Connect, Execute (fetch_one_by_uuid_query ''test_table'' (PStr ''non-existing-uuid'')) [],
           Fetchone, Close]\<rparr>)
   \<and> delete_one_by_uuid test_sqlite test_repo (PStr ''non-existing-uuid'') john_world
     = (Inr None,
        john_world\<lparr>calls :=
          [Connect, Execute (fetch_one_by_uuid_query ''test_table'' (PStr ''non-existing-uuid'')) [],
           Fetchone, Close]\<rparr>)
   \<and> soft_delete_one_by_uuid test_sqlite test_repo (PStr ''non-existing-uuid'') john_world
     = (Inr None,
        john_world\<lparr>calls :=
          [Connect, Execute (fetch_one_by_uuid_query ''test_table'' (PStr ''non-existing-uuid'')) [],
           Fetchone, Close]\<rparr>)"
proof -
  have h: "fetch_one_by_uuid test_sqlite test_repo (PStr ''non-existing-uuid'') john_world
     = (Inr None,
        john_world\<lparr>calls :=
          [Connect, Execute (fetch_one_by_uuid_query ''test_table'' (PStr ''non-existing-uuid'')) [],
           Fetchone, Close]\<rparr>)"
    by code_simp
  from delete_of_absent_id [OF h] h show ?thesis by simp
qed

text \<open>
  Claim C1 as it is written says that no connection is opened and no statement is
  executed. On a table whose only row has another identifier both operations return
  none, and each has opened a connection and executed the \<open>SELECT\<close> of the check.
\<close>

theorem delete_of_absent_id_opens_connection:
  "database john_world = [john_row]
   \<and> map_of john_row ''uuid'' = Some (PStr ''test-uuid'')
   \<and> fst (delete_one_by_uuid test_sqlite test_repo (PStr ''non-existing-uuid'') john_world) = Inr None
   \<and> calls (snd (delete_one_by_uuid test_sqlite test_repo (PStr ''non-existing-uuid'') john_world))
       = [Connect, Execute (fetch_one_by_uuid_query ''test_table'' (PStr ''non-existing-uuid'')) [],
          Fetchone, Close]
   \<and> fst (soft_delete_one_by_uuid test_sqlite test_repo (PStr ''non-existing-uuid'') john_world)
       = Inr None
   \<and> calls (snd (soft_delete_one_by_uuid test_sqlite test_repo (PStr ''non-existing-uuid'') john_world))
       = [Connect, Execute (fetch_one_by_uuid_query ''test_table'' (PStr ''non-existing-uuid'')) [],
          Fetchone, Close]"
  by code_simp



section \<open>Fetching one\<close>

text \<open>
  Claim C10. When the scan for an identifier yields one or more rows, \<open>fetch_one_by_uuid\<close>
  takes the first with a single \<open>fetchone\<close> and returns what the mapper makes of it; the
  rows after it play no part, so several matching rows are no error.
\<close>

theorem fetch_one_takes_first_row:
  assumes "connect sqlite (database w) = None"
    and "execute sqlite (fetch_one_by_uuid_query (table_name self) uid) [] (database w)
           = Inr (db', r # rs)"
    and "r \<noteq> []"
  shows "fetch_one_by_uuid sqlite self uid w =
           (map_sum id Some (map_from_repo (repo_mapper self) r),
            w\<lparr>calls := calls w @ [Connect, Execute (fetch_one_by_uuid_query (table_name self) uid) [],
                                   Fetchone, Close]\<rparr>)"
  using assms by (simp add: fetch_one_by_uuid_eq Let_def)

text \<open>Two rows with one identifier: the first in scan order is returned.\<close>

theorem fetch_one_takes_first_row_witness:
  "database twin_world = [john_row, jane_row]
   \<and> map_of john_row ''uuid'' = map_of jane_row ''uuid''
   \<and> fetch_one_by_uuid test_sqlite test_repo (PStr ''test-uuid'') twin_world
       = (Inr (Some john_doe),
          twin_world\<lparr>calls :=
            [Connect, Execute (fetch_one_by_uuid_query ''test_table'' (PStr ''test-uuid'')) [],
             Fetchone, Close]\<rparr>)"
proof -
  have c: "connect test_sqlite (database twin_world) = None"
    by code_simp
  have e: "execute test_sqlite (fetch_one_by_uuid_query (table_name test_repo) (PStr ''test-uuid'')) []
             (database twin_world) = Inr ([john_row, jane_row], john_row # [jane_row])"
    by code_simp
  have r: "john_row \<noteq> []"
    by code_simp
  have m: "map_sum id Some (map_from_repo (repo_mapper test_repo) john_row) = Inr (Some john_doe)"
    by code_simp
  have u: "map_of john_row ''uuid'' = map_of jane_row ''uuid''"
    by code_simp
  have n: "table_name test_repo = ''test_table''"
    by (simp add: test_repo_def)
  from fetch_one_takes_first_row [OF c e r] show ?thesis
    unfolding m n by (simp add: u twin_world_def)
qed

section \<open>Updating\<close>

text \<open>
  Claim C6 says that \<open>update_one\<close>, when no row has the identifier of the entity,
  writes nothing and returns none. The four values of the \<open>SET\<close> clause are bound as
  parameters, but the identifier is pasted between quotes into the text of the statement,
  and into the text of the fetch that follows. For the user whose identifier is
  \<open>x' OR '1'='1\<close>, a user the constructor accepts, the two statements read as below:
  the first quote of the identifier ends the literal and \<open>OR '1'='1'\<close> is part of the
  \<open>WHERE\<close> clause, which then holds for every row, whatever its \<open>uuid\<close>. The
  statement rewrites every row of the table, and the fetch yields the first row of the
  table, which \<open>update_one\<close> returns as a user. The last part runs \<open>update_one\<close> on
  the cursor of the tests, set up with the row that the fetch yields on a table holding
  the row of the user \<open>test-uuid\<close>: the two statements are the ones executed, and the
  result is that user, not none.
\<close>

theorem update_one_injected_id:
  "User_init dotted_quad (PStr injected_uuid) (PStr ''John Doe'') (PStr ''john.doe@qt.com'')
       (PStr ''192.168.1.1'') (PInt 1) = Inr injected_user
   \<and> render (update_one_query (table_name test_repo)
        (map_to_repo (repo_mapper test_repo) injected_user) (entity_uuid injected_user))
       = Some (''UPDATE test_table SET user_name = ?, email = ?, last_login_ip = ?, user_type = ? WHERE uuid = 'x' OR '1'='1''
               @ [CHR 0x27])
   \<and> update_params (map_to_repo (repo_mapper test_repo) injected_user)
       = [PStr ''John Doe'', PStr ''john.doe@qt.com'', PStr ''192.168.1.1'', PInt 1]
   \<and> render (fetch_one_by_uuid_query (table_name test_repo) (entity_uuid injected_user))
       = Some (''SELECT * FROM test_table WHERE uuid = 'x' OR '1'='1'' @ [CHR 0x27])
   \<and> update_one (mock_sqlite [john_row]) test_repo injected_user mock_world
       = (Inr (Some john_doe),
          mock_world\<lparr>calls :=
            [Connect,
             Execute (update_one_query (table_name test_repo)
                        (map_to_repo (repo_mapper test_repo) injected_user)
                        (entity_uuid injected_user))
               [PStr ''John Doe'', PStr ''john.doe@qt.com'', PStr ''192.168.1.1'', PInt 1],
             Commit, Close,
             Connect,
             Execute (fetch_one_by_uuid_query (table_name test_repo) (entity_uuid injected_user)) [],
             Fetchone, Close]\<rparr>)
   \<and> entity_uuid john_doe \<noteq> entity_uuid injected_user"
  by code_simp

section \<open>Fetching users by type\<close>




end
